theory Spec2Isabelle
  imports Complex_Main
begin

section \<open>The schema\<close>

text \<open>
  The tables of the shared schema (\<^verbatim>\<open>pgTable("books", ...)\<close> and its siblings), one record
  per row type. A \<^verbatim>\<open>timestamp\<close> column is the number of milliseconds that
  \<^verbatim>\<open>Date.getTime()\<close> returns, a \<^verbatim>\<open>decimal(p, 2)\<close> column is its value in hundredths, a
  nullable column is an option. Of the users table only the id and the role are read by
  the operations below.
\<close>

type_synonym timestamp = int
type_synonym decimal = int

record user =
  user_id :: string
  user_role :: string

record book =
  book_id :: int
  title :: string
  author :: string
  isbn :: "string option"
  category :: string
  description :: "string option"
  coverImageUrl :: "string option"
  price :: decimal
  totalCopies :: int
  availableCopies :: int
  rating :: "decimal option"
  createdAt :: "timestamp option"
  updatedAt :: "timestamp option"

record borrowed_book =
  borrow_id :: int
  userId :: string
  bookId :: int
  borrowedAt :: "timestamp option"
  dueDate :: timestamp
  returnedAt :: "timestamp option"
  status :: string

record purchase =
  purchase_id :: int
  p_userId :: string
  p_bookId :: int
  p_price :: decimal
  purchasedAt :: "timestamp option"

text \<open>
  The database: the four tables in insertion order, and the next value of each
  \<^verbatim>\<open>serial\<close> primary key.
\<close>

record db =
  users :: "user list"
  books :: "book list"
  borrowedBooks :: "borrowed_book list"
  purchases :: "purchase list"
  books_seq :: int
  borrowed_seq :: int
  purchases_seq :: int

text \<open>
  What a method of the storage layer rejects with: the store's errors, by class, when a
  statement breaks a constraint of the schema or carries a value that the type of its
  column cannot read, and the \<^verbatim>\<open>TypeError\<close> of JavaScript.
\<close>

datatype storage_error =
  ForeignKeyViolation | UniqueViolation | NumericValueOutOfRange
  | InvalidTextRepresentation | DatetimeFieldOverflow | TypeError

text \<open>An \<^verbatim>\<open>integer\<close> column holds 32 bits; a \<^verbatim>\<open>decimal(p, 2)\<close> column holds \<open>p\<close> digits.\<close>

definition int4 :: "int \<Rightarrow> bool" where
  "int4 v \<longleftrightarrow> - 2147483648 \<le> v \<and> v \<le> 2147483647"

definition decimal_fits :: "nat \<Rightarrow> decimal \<Rightarrow> bool" where
  "decimal_fits p v \<longleftrightarrow> \<bar>v\<bar> < 10 ^ p"

text \<open>
  A \<^verbatim>\<open>Date\<close> that the program hands to a \<^verbatim>\<open>timestamp\<close> column travels as its
  \<^verbatim>\<open>toISOString()\<close>; the store reads it when the year has four digits and is not 0000,
  that is from 0001-01-01T00:00:00.000Z to 9999-12-31T23:59:59.999Z.
\<close>

definition timestamp_fits :: "timestamp \<Rightarrow> bool" where
  "timestamp_fits t \<longleftrightarrow> - 62135596800000 \<le> t \<and> t \<le> 253402300799999"

section \<open>The storage layer (server/storage.ts)\<close>

text \<open>
  Every method of \<^verbatim>\<open>DatabaseStorage\<close> takes the database and returns the database it
  leaves behind together with its result: \<open>Inr\<close> the resolved value, \<open>Inl\<close> the error of a
  rejected promise. No method opens a transaction, so a method that fails in its second
  statement leaves the first one applied. The clock (\<^verbatim>\<open>new Date()\<close>, \<^verbatim>\<open>defaultNow()\<close>) is
  the argument \<open>now\<close>. An id that a statement compares with a \<^verbatim>\<open>serial\<close> or \<^verbatim>\<open>integer\<close>
  column must fit 32 bits, or the store refuses the statement. A \<^verbatim>\<open>serial\<close> key that an
  \<^verbatim>\<open>INSERT\<close> has drawn stays drawn when a constraint then rejects the row.
\<close>

definition getUser :: "string \<Rightarrow> db \<Rightarrow> user option" where
  "getUser i s = find (\<lambda>u. user_id u = i) (users s)"

definition getBookById :: "int \<Rightarrow> db \<Rightarrow> storage_error + book option" where
  "getBookById i s =
     (if int4 i then Inr (find (\<lambda>b. book_id b = i) (books s)) else Inl NumericValueOutOfRange)"

text \<open>
  \<^verbatim>\<open>InsertBook\<close>: the insert schema of books without id, createdAt and updatedAt. The
  columns with a default (\<^verbatim>\<open>totalCopies\<close>, \<^verbatim>\<open>availableCopies\<close>, \<^verbatim>\<open>rating\<close>) and the nullable
  ones may be left out.
\<close>

record insert_book =
  ib_title :: string
  ib_author :: string
  ib_isbn :: "string option"
  ib_category :: string
  ib_description :: "string option"
  ib_coverImageUrl :: "string option"
  ib_price :: decimal
  ib_totalCopies :: "int option"
  ib_availableCopies :: "int option"
  ib_rating :: "decimal option"

definition new_book :: "insert_book \<Rightarrow> timestamp \<Rightarrow> int \<Rightarrow> book" where
  "new_book ib now i =
     \<lparr>book_id = i, title = ib_title ib, author = ib_author ib, isbn = ib_isbn ib,
      category = ib_category ib, description = ib_description ib,
      coverImageUrl = ib_coverImageUrl ib, price = ib_price ib,
      totalCopies = (case ib_totalCopies ib of None \<Rightarrow> 1 | Some t \<Rightarrow> t),
      availableCopies = (case ib_availableCopies ib of None \<Rightarrow> 1 | Some a \<Rightarrow> a),
      rating = (case ib_rating ib of None \<Rightarrow> Some 0 | Some r \<Rightarrow> Some r),
      createdAt = Some now, updatedAt = Some now\<rparr>"

definition isbn_taken :: "string option \<Rightarrow> db \<Rightarrow> bool" where
  "isbn_taken i s = (case i of None \<Rightarrow> False | Some v \<Rightarrow> Some v \<in> set (map isbn (books s)))"

definition book_fits :: "book \<Rightarrow> bool" where
  "book_fits b \<longleftrightarrow>
     int4 (totalCopies b) \<and> int4 (availableCopies b) \<and> decimal_fits 10 (price b)
     \<and> (case rating b of None \<Rightarrow> True | Some r \<Rightarrow> decimal_fits 3 r)"

text \<open>
  \<^verbatim>\<open>db.insert(books).values(book).returning()\<close>: the store fills in the defaults, rejects a
  value that does not fit its column, and rejects an ISBN that another row carries
  (\<^verbatim>\<open>varchar("isbn").unique()\<close>; rows without an ISBN never collide).
\<close>

definition createBook ::
  "insert_book \<Rightarrow> timestamp \<Rightarrow> db \<Rightarrow> db \<times> (storage_error + book)" where
  "createBook ib now s =
     (let newBook = new_book ib now (books_seq s) in
      if \<not> book_fits newBook then (s, Inl NumericValueOutOfRange)
      else if isbn_taken (isbn newBook) s
        then (s\<lparr>books_seq := books_seq s + 1\<rparr>, Inl UniqueViolation)
      else (s\<lparr>books := books s @ [newBook], books_seq := books_seq s + 1\<rparr>, Inr newBook))"

text \<open>
  The statement both \<^verbatim>\<open>borrowBook\<close> and \<^verbatim>\<open>returnBook\<close> send to the books table:
  \<^verbatim>\<open>update(books).set({availableCopies: db.$count(books.availableCopies) + d}).where(eq(books.id, i))\<close>
  with \<open>d\<close> either \<open>-1\<close> or \<open>1\<close>. \<^verbatim>\<open>db.$count(...)\<close> is the query builder's count object, not
  a number, and the arithmetic is JavaScript's: the object minus 1 is \<^verbatim>\<open>NaN\<close>, the object
  plus 1 is the string \<^verbatim>\<open>"[object PgCountBuilder]1"\<close>. Neither reads as an \<^verbatim>\<open>integer\<close>, so
  the store refuses the statement on every call and no row changes, whatever the
  comments beside it say ("decrease available copies", "increase available copies").
\<close>

definition update_copies :: "int \<Rightarrow> int \<Rightarrow> db \<Rightarrow> storage_error + db" where
  "update_copies i d s = Inl InvalidTextRepresentation"

text \<open>
  \<^verbatim>\<open>borrowBook\<close>: the statement above, then the \<^verbatim>\<open>INSERT\<close> of the loan, which the foreign
  keys of \<^verbatim>\<open>user_id\<close> and \<^verbatim>\<open>book_id\<close> guard.
\<close>

definition borrowBook ::
  "string \<Rightarrow> int \<Rightarrow> timestamp \<Rightarrow> timestamp \<Rightarrow> db \<Rightarrow> db \<times> (storage_error + borrowed_book)" where
  "borrowBook uid bid due now s =
     (case update_copies bid (- 1) s of
        Inl e \<Rightarrow> (s, Inl e)
      | Inr s1 \<Rightarrow>
          if \<not> timestamp_fits due then (s1, Inl DatetimeFieldOverflow)
          else if \<not> int4 bid then (s1, Inl NumericValueOutOfRange)
          else if uid \<notin> set (map user_id (users s1)) \<or> bid \<notin> set (map book_id (books s1))
          then (s1\<lparr>borrowed_seq := borrowed_seq s1 + 1\<rparr>, Inl ForeignKeyViolation)
          else
            (let borrowed = \<lparr>borrow_id = borrowed_seq s1, userId = uid, bookId = bid,
                             borrowedAt = Some now, dueDate = due, returnedAt = None,
                             status = ''borrowed''\<rparr>
             in (s1\<lparr>borrowedBooks := borrowedBooks s1 @ [borrowed],
                    borrowed_seq := borrowed_seq s1 + 1\<rparr>, Inr borrowed)))"

text \<open>
  \<^verbatim>\<open>returnBook\<close>: the \<^verbatim>\<open>SELECT\<close> of the loan by its id; when there is one, the \<^verbatim>\<open>UPDATE\<close>
  that marks every loan of that id returned at \<^verbatim>\<open>new Date()\<close>, then the statement on the
  books table.
\<close>

definition mark_returned :: "int \<Rightarrow> timestamp \<Rightarrow> borrowed_book \<Rightarrow> borrowed_book" where
  "mark_returned i now l =
     (if borrow_id l = i then l\<lparr>status := ''returned'', returnedAt := Some now\<rparr> else l)"

definition returnBook :: "int \<Rightarrow> timestamp \<Rightarrow> db \<Rightarrow> db \<times> (storage_error + unit)" where
  "returnBook borrowId now s =
     (if \<not> int4 borrowId then (s, Inl NumericValueOutOfRange)
      else case find (\<lambda>l. borrow_id l = borrowId) (borrowedBooks s) of
        None \<Rightarrow> (s, Inr ())
      | Some borrowed \<Rightarrow>
          if \<not> timestamp_fits now then (s, Inl DatetimeFieldOverflow)
          else
            (let s1 = s\<lparr>borrowedBooks := map (mark_returned borrowId now) (borrowedBooks s)\<rparr>
             in case update_copies (bookId borrowed) 1 s1 of
                  Inl e \<Rightarrow> (s1, Inl e)
                | Inr s2 \<Rightarrow> (s2, Inr ())))"

text \<open>
  \<^verbatim>\<open>renewBook\<close>: one \<^verbatim>\<open>UPDATE\<close> of the due date of the loans with the given id, with no
  condition but the id.
\<close>

definition set_dueDate :: "int \<Rightarrow> timestamp \<Rightarrow> borrowed_book \<Rightarrow> borrowed_book" where
  "set_dueDate i newDueDate l = (if borrow_id l = i then l\<lparr>dueDate := newDueDate\<rparr> else l)"

definition renewBook :: "int \<Rightarrow> timestamp \<Rightarrow> db \<Rightarrow> db \<times> (storage_error + unit)" where
  "renewBook borrowId newDueDate s =
     (if \<not> timestamp_fits newDueDate then (s, Inl DatetimeFieldOverflow)
      else if \<not> int4 borrowId then (s, Inl NumericValueOutOfRange)
      else (s\<lparr>borrowedBooks := map (set_dueDate borrowId newDueDate) (borrowedBooks s)\<rparr>,
            Inr ()))"

definition purchaseBook ::
  "string \<Rightarrow> int \<Rightarrow> decimal \<Rightarrow> timestamp \<Rightarrow> db \<Rightarrow> db \<times> (storage_error + purchase)" where
  "purchaseBook uid bid pr now s =
     (if \<not> (int4 bid \<and> decimal_fits 10 pr) then (s, Inl NumericValueOutOfRange)
      else if uid \<notin> set (map user_id (users s)) \<or> bid \<notin> set (map book_id (books s))
      then (s\<lparr>purchases_seq := purchases_seq s + 1\<rparr>, Inl ForeignKeyViolation)
      else
        (let p = \<lparr>purchase_id = purchases_seq s, p_userId = uid, p_bookId = bid,
                  p_price = pr, purchasedAt = Some now\<rparr>
         in (s\<lparr>purchases := purchases s @ [p], purchases_seq := purchases_seq s + 1\<rparr>, Inr p)))"

text \<open>
  The admin statistics. Four of the five methods await a count and then take it apart as
  an array: \<^verbatim>\<open>const [result] = await db.$count(...); return result.count\<close>. The awaited
  value is a number, a number is not iterable, and the destructuring throws
  \<^verbatim>\<open>TypeError\<close>, whatever the count. What would have been counted is every row of the table
  (the date filters \<^verbatim>\<open>// borrowedAt >= today\<close> and \<^verbatim>\<open>// dueDate < now\<close> are comments),
  for \<^verbatim>\<open>getTotalOverdue\<close> every loan with status borrowed. \<^verbatim>\<open>getTotalRevenueToday\<close> returns a
  constant ("Placeholder for now"). \<^verbatim>\<open>today.setHours(0, 0, 0, 0)\<close> is local midnight: \<open>tz\<close> is
  the offset of the server's zone from UTC in milliseconds.
\<close>

definition startOfDay :: "int \<Rightarrow> timestamp \<Rightarrow> timestamp" where
  "startOfDay tz now = now - (now + tz) mod 86400000"

definition first_of_count :: "nat \<Rightarrow> storage_error + nat" where
  "first_of_count n = Inl TypeError"

definition getTotalBooks :: "db \<Rightarrow> storage_error + nat" where
  "getTotalBooks s = first_of_count (length (books s))"

definition getTotalUsers :: "db \<Rightarrow> storage_error + nat" where
  "getTotalUsers s = first_of_count (length (users s))"

definition getTotalBorrowedToday :: "int \<Rightarrow> timestamp \<Rightarrow> db \<Rightarrow> storage_error + nat" where
  "getTotalBorrowedToday tz now s =
     (let today = startOfDay tz now in first_of_count (length (borrowedBooks s)))"

definition getTotalOverdue :: "timestamp \<Rightarrow> db \<Rightarrow> storage_error + nat" where
  "getTotalOverdue now s =
     first_of_count (length (filter (\<lambda>l. status l = ''borrowed'') (borrowedBooks s)))"

definition getTotalRevenueToday :: "int \<Rightarrow> timestamp \<Rightarrow> db \<Rightarrow> storage_error + real" where
  "getTotalRevenueToday tz now s = (let today = startOfDay tz now in Inr 1847)"

section \<open>The routes (server/routes.ts)\<close>

text \<open>
  A handler answers \<^verbatim>\<open>res.json(x)\<close> or \<^verbatim>\<open>res.status(n).json({message: m})\<close>; its
  \<^verbatim>\<open>catch\<close> turns every error of the storage layer into status 500. The user id is the
  one of the authenticated session.
\<close>

datatype 'a response = Json 'a | Status nat string

definition route_borrow ::
  "string \<Rightarrow> int \<Rightarrow> timestamp \<Rightarrow> timestamp \<Rightarrow> db \<Rightarrow> db \<times> borrowed_book response" where
  "route_borrow uid bid due now s =
     (case getBookById bid s of
        Inl e \<Rightarrow> (s, Status 500 ''Failed to borrow book'')
      | Inr None \<Rightarrow> (s, Status 400 ''Book not available for borrowing'')
      | Inr (Some b) \<Rightarrow>
          if availableCopies b = 0 then (s, Status 400 ''Book not available for borrowing'')
          else (case borrowBook uid bid due now s of
                  (s', Inl e) \<Rightarrow> (s', Status 500 ''Failed to borrow book'')
                | (s', Inr borrowed) \<Rightarrow> (s', Json borrowed)))"

definition route_return :: "int \<Rightarrow> timestamp \<Rightarrow> db \<Rightarrow> db \<times> string response" where
  "route_return borrowId now s =
     (case returnBook borrowId now s of
        (s', Inl e) \<Rightarrow> (s', Status 500 ''Failed to return book'')
      | (s', Inr u) \<Rightarrow> (s', Json ''Book returned successfully''))"

definition route_renew :: "int \<Rightarrow> timestamp \<Rightarrow> db \<Rightarrow> db \<times> string response" where
  "route_renew borrowId newDueDate s =
     (case renewBook borrowId newDueDate s of
        (s', Inl e) \<Rightarrow> (s', Status 500 ''Failed to renew book'')
      | (s', Inr u) \<Rightarrow> (s', Json ''Book renewed successfully''))"

definition route_purchase ::
  "string \<Rightarrow> int \<Rightarrow> decimal \<Rightarrow> timestamp \<Rightarrow> db \<Rightarrow> db \<times> purchase response" where
  "route_purchase uid bid pr now s =
     (case purchaseBook uid bid pr now s of
        (s', Inl e) \<Rightarrow> (s', Status 500 ''Failed to purchase book'')
      | (s', Inr p) \<Rightarrow> (s', Json p))"

text \<open>
  \<^verbatim>\<open>POST /api/books\<close>: the role check, then \<^verbatim>\<open>insertBookSchema.parse\<close> (which a typed
  \<open>insert_book\<close> passes: the schema gives the columns their types and no bounds), then
  \<^verbatim>\<open>createBook\<close>.
\<close>

definition route_createBook ::
  "string \<Rightarrow> insert_book \<Rightarrow> timestamp \<Rightarrow> db \<Rightarrow> db \<times> book response" where
  "route_createBook uid ib now s =
     (case getUser uid s of
        None \<Rightarrow> (s, Status 403 ''Admin access required'')
      | Some u \<Rightarrow>
          if user_role u \<noteq> ''admin'' then (s, Status 403 ''Admin access required'')
          else (case createBook ib now s of
                  (s', Inl e) \<Rightarrow> (s', Status 500 ''Failed to create book'')
                | (s', Inr b) \<Rightarrow> (s', Json b)))"

record admin_stats =
  totalBooks :: nat
  totalUsers :: nat
  borrowedToday :: nat
  overdue :: nat
  revenueToday :: real

text \<open>
  \<^verbatim>\<open>GET /api/admin/stats\<close>: the role check, then \<^verbatim>\<open>Promise.all\<close> of the five statistics,
  which rejects as soon as one of them does.
\<close>

definition all_stats :: "int \<Rightarrow> timestamp \<Rightarrow> db \<Rightarrow> storage_error + admin_stats" where
  "all_stats tz now s =
     (case getTotalBooks s of Inl e \<Rightarrow> Inl e | Inr b \<Rightarrow>
      case getTotalUsers s of Inl e \<Rightarrow> Inl e | Inr u \<Rightarrow>
      case getTotalBorrowedToday tz now s of Inl e \<Rightarrow> Inl e | Inr t \<Rightarrow>
      case getTotalOverdue now s of Inl e \<Rightarrow> Inl e | Inr d \<Rightarrow>
      case getTotalRevenueToday tz now s of Inl e \<Rightarrow> Inl e | Inr r \<Rightarrow>
        Inr \<lparr>totalBooks = b, totalUsers = u, borrowedToday = t, overdue = d,
             revenueToday = r\<rparr>)"

definition route_admin_stats :: "string \<Rightarrow> int \<Rightarrow> timestamp \<Rightarrow> db \<Rightarrow> admin_stats response" where
  "route_admin_stats uid tz now s =
     (case getUser uid s of
        None \<Rightarrow> Status 403 ''Admin access required''
      | Some u \<Rightarrow>
          if user_role u \<noteq> ''admin'' then Status 403 ''Admin access required''
          else (case all_stats tz now s of
                  Inl e \<Rightarrow> Status 500 ''Failed to fetch admin stats''
                | Inr st \<Rightarrow> Json st))"

section \<open>Sequences of requests\<close>

text \<open>A borrow request or a return request, and the database after a list of them.\<close>

datatype request = Borrow string int timestamp timestamp | Return int timestamp

fun step :: "db \<Rightarrow> request \<Rightarrow> db" where
  "step s (Borrow uid bid due now) = fst (route_borrow uid bid due now s)"
| "step s (Return borrowId now) = fst (route_return borrowId now s)"

fun run :: "db \<Rightarrow> request list \<Rightarrow> db" where
  "run s [] = s"
| "run s (r # rs) = run (step s r) rs"


section \<open>The statistics as the specification words them\<close>

text \<open>
  The three aggregates as the specification describes them, to set beside the ones of
  the storage layer: loans whose \<^verbatim>\<open>borrowedAt\<close> falls within the current calendar day,
  loans with status borrowed and a due date in the past, and the sum of the prices of
  the purchases made within the current calendar day.
\<close>

definition within_today :: "int \<Rightarrow> timestamp \<Rightarrow> timestamp option \<Rightarrow> bool" where
  "within_today tz now t =
     (case t of None \<Rightarrow> False
      | Some v \<Rightarrow> startOfDay tz now \<le> v \<and> v < startOfDay tz now + 86400000)"

definition spec_borrowedToday :: "int \<Rightarrow> timestamp \<Rightarrow> db \<Rightarrow> nat" where
  "spec_borrowedToday tz now s =
     length (filter (\<lambda>l. within_today tz now (borrowedAt l)) (borrowedBooks s))"

definition spec_overdue :: "timestamp \<Rightarrow> db \<Rightarrow> nat" where
  "spec_overdue now s =
     length (filter (\<lambda>l. status l = ''borrowed'' \<and> dueDate l < now) (borrowedBooks s))"

definition spec_revenueToday :: "int \<Rightarrow> timestamp \<Rightarrow> db \<Rightarrow> real" where
  "spec_revenueToday tz now s =
     (\<Sum>p \<leftarrow> filter (\<lambda>p. within_today tz now (purchasedAt p)) (purchases s).
        real_of_int (p_price p) / 100)"

section \<open>The dashboard (client/src/components/UserDashboard.tsx)\<close>

text \<open>
  \<^verbatim>\<open>getStatus\<close> parses the due date and reads the clock; here both arrive as timestamps.
  The quotient is taken exactly. In the source it is a floating-point division of two
  integers; for a due date in the range of \<^verbatim>\<open>Date\<close> and a clock near the present the
  difference is below \<open>2^53\<close>, and a quotient that is not a whole number lies at least
  \<open>1 / 86400000\<close> from the next one, more than the rounding of the division can move it,
  so \<^verbatim>\<open>Math.ceil\<close> returns the same integer.
\<close>

record status_badge =
  badge_text :: string
  badge_color :: string

definition diffDays :: "timestamp \<Rightarrow> timestamp \<Rightarrow> int" where
  "diffDays due now = \<lceil>real_of_int (due - now) / (1000 * 3600 * 24)\<rceil>"

definition getStatus :: "timestamp \<Rightarrow> timestamp \<Rightarrow> status_badge" where
  "getStatus due now =
     (if diffDays due now < 0
        then \<lparr>badge_text = ''Overdue'', badge_color = ''bg-library-error text-white''\<rparr>
      else if diffDays due now \<le> 3
        then \<lparr>badge_text = ''Due Soon'', badge_color = ''bg-library-warning text-white''\<rparr>
      else \<lparr>badge_text = ''On Time'', badge_color = ''bg-library-success text-white''\<rparr>)"

section \<open>Example data\<close>

definition alice :: user where
  "alice = \<lparr>user_id = ''alice'', user_role = ''user''\<rparr>"

definition root :: user where
  "root = \<lparr>user_id = ''root'', user_role = ''admin''\<rparr>"

definition dune :: book where
  "dune = \<lparr>book_id = 1, title = ''Dune'', author = ''Frank Herbert'', isbn = Some ''9780441013593'',
            category = ''Fiction'', description = None, coverImageUrl = None, price = 1000,
            totalCopies = 1, availableCopies = 1, rating = Some 0,
            createdAt = Some 1690000000000, updatedAt = Some 1690000000000\<rparr>"

definition emma :: book where
  "emma = \<lparr>book_id = 2, title = ''Emma'', author = ''Jane Austen'', isbn = None,
            category = ''Romance'', description = None, coverImageUrl = None, price = 999,
            totalCopies = 3, availableCopies = 3, rating = Some 0,
            createdAt = Some 1690000000000, updatedAt = Some 1690000000000\<rparr>"

text \<open>A library of two books, nothing lent or sold yet.\<close>

definition db0 :: db where
  "db0 = \<lparr>users = [alice, root], books = [dune, emma], borrowedBooks = [], purchases = [],
          books_seq = 3, borrowed_seq = 1, purchases_seq = 1\<rparr>"

text \<open>The same library with the only copy of the first book lent to alice.\<close>

definition loan1 :: borrowed_book where
  "loan1 = \<lparr>borrow_id = 1, userId = ''alice'', bookId = 1, borrowedAt = Some 1700000000000,
             dueDate = 1701209600000, returnedAt = None, status = ''borrowed''\<rparr>"

definition db1 :: db where
  "db1 = db0\<lparr>books := [dune\<lparr>availableCopies := 0\<rparr>, emma], borrowedBooks := [loan1],
             borrowed_seq := 2\<rparr>"

text \<open>
  The library of the statistics example: two books, a loan from last month that is
  overdue, a loan made today, and one purchase made today at 9.99. The clock stands at
  1700000500000, the server runs on UTC, and the day began at 1699920000000.
\<close>

definition loan0 :: borrowed_book where
  "loan0 = \<lparr>borrow_id = 1, userId = ''alice'', bookId = 2, borrowedAt = Some 1697000000000,
             dueDate = 1698209600000, returnedAt = None, status = ''borrowed''\<rparr>"

definition loan2 :: borrowed_book where
  "loan2 = \<lparr>borrow_id = 2, userId = ''alice'', bookId = 1, borrowedAt = Some 1700000000000,
             dueDate = 1701209600000, returnedAt = None, status = ''borrowed''\<rparr>"

definition sale1 :: purchase where
  "sale1 = \<lparr>purchase_id = 1, p_userId = ''alice'', p_bookId = 2, p_price = 999,
             purchasedAt = Some 1700000100000\<rparr>"

definition db_stats :: db where
  "db_stats = \<lparr>users = [alice, root],
               books = [dune\<lparr>availableCopies := 0\<rparr>, emma\<lparr>availableCopies := 2\<rparr>],
               borrowedBooks = [loan0, loan2], purchases = [sale1],
               books_seq = 3, borrowed_seq = 3, purchases_seq = 2\<rparr>"

text \<open>A book to add: five copies, the available ones left to the default, no ISBN.\<close>

definition ulysses :: insert_book where
  "ulysses = \<lparr>ib_title = ''Ulysses'', ib_author = ''James Joyce'', ib_isbn = None,
              ib_category = ''Fiction'', ib_description = None, ib_coverImageUrl = None,
              ib_price = 1250, ib_totalCopies = Some 5, ib_availableCopies = None,
              ib_rating = None\<rparr>"

section \<open>Unknown loan ids\<close>

text \<open>
  C10. For every \<open>borrowId\<close> of the id column's 32 bits that matches no row of the
  borrowed-books table, \<^verbatim>\<open>returnBook\<close> resolves without an error and leaves the whole
  database, hence every book and every loan, as it was; the route answers "Book
  returned successfully".
\<close>

theorem returnBook_unknown_noop:
  assumes "int4 borrowId"
    and "\<forall>l \<in> set (borrowedBooks s). borrow_id l \<noteq> borrowId"
  shows "returnBook borrowId now s = (s, Inr ())
     \<and> route_return borrowId now s = (s, Json ''Book returned successfully'')"
proof -
  have "find (\<lambda>l. borrow_id l = borrowId) (borrowedBooks s) = None"
    using assms(2) by (simp add: find_None_iff)
  with assms(1) have "returnBook borrowId now s = (s, Inr ())"
    by (simp add: returnBook_def)
  then show ?thesis
    by (simp add: route_return_def)
qed

theorem returnBook_unknown_noop_witness:
  "returnBook 2 1700000500000 db1 = (db1, Inr ())
   \<and> route_return 2 1700000500000 db1 = (db1, Json ''Book returned successfully'')"
proof -
  have "int4 2"
    by (simp add: int4_def)
  moreover have "\<forall>l \<in> set (borrowedBooks db1). borrow_id l \<noteq> 2"
    by (simp add: db1_def db0_def loan1_def)
  ultimately show ?thesis
    by (rule returnBook_unknown_noop)
qed

section \<open>Borrowing what is not there\<close>

text \<open>
  C4. A borrow request (\<^verbatim>\<open>POST /api/borrow\<close>) for a book id of the id column's 32 bits
  that no row carries, or whose row has \<^verbatim>\<open>availableCopies = 0\<close>, is answered with status
  400 "Book not available for borrowing" and leaves the database as it was: no loan is
  created and no copy count changes.
\<close>

theorem borrow_unavailable_rejected:
  assumes "int4 bid"
    and "\<forall>b \<in> set (books s). book_id b = bid \<longrightarrow> availableCopies b = 0"
  shows "route_borrow uid bid due now s = (s, Status 400 ''Book not available for borrowing'')"
proof (cases "find (\<lambda>b. book_id b = bid) (books s)")
  case None
  with assms(1) show ?thesis
    by (simp add: route_borrow_def getBookById_def)
next
  case (Some b)
  then have "b \<in> set (books s)" and "book_id b = bid"
    by (auto simp: find_Some_iff)
  with assms(2) have "availableCopies b = 0"
    by blast
  with Some assms(1) show ?thesis
    by (simp add: route_borrow_def getBookById_def)
qed

theorem borrow_unavailable_rejected_witness:
  "route_borrow ''root'' 1 1701209600000 1700000500000 db1
     = (db1, Status 400 ''Book not available for borrowing'')
   \<and> route_borrow ''root'' 7 1701209600000 1700000500000 db1
     = (db1, Status 400 ''Book not available for borrowing'')"
proof -
  have range: "int4 1" "int4 7"
    by (simp_all add: int4_def)
  have sold_out: "\<forall>b \<in> set (books db1). book_id b = 1 \<longrightarrow> availableCopies b = 0"
    by (simp add: db1_def db0_def dune_def emma_def)
  have unknown: "\<forall>b \<in> set (books db1). book_id b = 7 \<longrightarrow> availableCopies b = 0"
    by (simp add: db1_def db0_def dune_def emma_def)
  show ?thesis
    using borrow_unavailable_rejected [OF range(1) sold_out]
      borrow_unavailable_rejected [OF range(2) unknown]
    by simp
qed

section \<open>The derived status of a loan\<close>

lemma diffDays_le: "diffDays due now \<le> d \<longleftrightarrow> due - now \<le> d * 86400000"
proof -
  have "diffDays due now \<le> d \<longleftrightarrow> real_of_int (due - now) / 86400000 \<le> real_of_int d"
    by (simp add: diffDays_def ceiling_le_iff)
  also have "\<dots> \<longleftrightarrow> real_of_int (due - now) \<le> real_of_int (d * 86400000)"
    by (simp add: field_simps)
  also have "\<dots> \<longleftrightarrow> due - now \<le> d * 86400000"
    by (simp only: of_int_le_iff)
  finally show ?thesis .
qed

text \<open>
  C6. The status shown for a loan is a function of the due date and the clock alone.
  With \<open>diffDays\<close> the number of days remaining, rounded up (the least \<open>d\<close> such that the
  due date is at most \<open>d\<close> whole days after now), the status is Overdue exactly when
  \<open>diffDays < 0\<close>, Due Soon exactly when \<open>0 \<le> diffDays \<le> 3\<close>, and On Time otherwise. A due
  date one day ago is Overdue, one in two days is Due Soon, one in ten days is On Time.
\<close>

theorem getStatus_rule:
  "(badge_text (getStatus due now) = ''Overdue'' \<longleftrightarrow> diffDays due now < 0)
   \<and> (badge_text (getStatus due now) = ''Due Soon''
        \<longleftrightarrow> 0 \<le> diffDays due now \<and> diffDays due now \<le> 3)
   \<and> (badge_text (getStatus due now) = ''On Time'' \<longleftrightarrow> 3 < diffDays due now)
   \<and> (diffDays due now = d
        \<longleftrightarrow> (d - 1) * 86400000 < due - now \<and> due - now \<le> d * 86400000)
   \<and> diffDays due now = \<lceil>real_of_int (due - now) / 86400000\<rceil>
   \<and> badge_text (getStatus (now - 86400000) now) = ''Overdue''
   \<and> badge_text (getStatus (now + 2 * 86400000) now) = ''Due Soon''
   \<and> badge_text (getStatus (now + 10 * 86400000) now) = ''On Time''"
proof -
  have labels:
    "(badge_text (getStatus due now) = ''Overdue'' \<longleftrightarrow> diffDays due now < 0)
     \<and> (badge_text (getStatus due now) = ''Due Soon''
          \<longleftrightarrow> 0 \<le> diffDays due now \<and> diffDays due now \<le> 3)
     \<and> (badge_text (getStatus due now) = ''On Time'' \<longleftrightarrow> 3 < diffDays due now)"
    by (simp add: getStatus_def)
  have least: "diffDays due now = d
      \<longleftrightarrow> (d - 1) * 86400000 < due - now \<and> due - now \<le> d * 86400000"
    using diffDays_le [of due now d] diffDays_le [of due now "d - 1"] by auto
  have ceil: "diffDays due now = \<lceil>real_of_int (due - now) / 86400000\<rceil>"
    by (simp add: diffDays_def)
  have examples:
    "badge_text (getStatus (now - 86400000) now) = ''Overdue''
     \<and> badge_text (getStatus (now + 2 * 86400000) now) = ''Due Soon''
     \<and> badge_text (getStatus (now + 10 * 86400000) now) = ''On Time''"
    by (simp add: getStatus_def diffDays_def)
  from labels least ceil examples show ?thesis
    by blast
qed

section \<open>Unfolding the layers\<close>

lemmas example_defs =
  db0_def db1_def db_stats_def alice_def root_def dune_def emma_def
  loan0_def loan1_def loan2_def sale1_def

lemmas storage_defs =
  borrowBook_def returnBook_def renewBook_def purchaseBook_def createBook_def
  update_copies_def mark_returned_def set_dueDate_def
  getBookById_def getUser_def int4_def decimal_fits_def timestamp_fits_def Let_def

lemmas route_defs =
  route_borrow_def route_return_def route_renew_def route_purchase_def
  route_createBook_def

lemma find_Some_holds:
  assumes "find P xs = Some x"
  shows "P x" and "x \<in> set xs"
  using assms by (auto simp: find_Some_iff)

text \<open>A borrow request writes nothing, whatever it is answered.\<close>

lemma route_borrow_state: "fst (route_borrow uid bid due now s) = s"
  by (simp add: route_borrow_def borrowBook_def update_copies_def
      split: sum.splits option.splits)

section \<open>Returning a loan\<close>

text \<open>
  C2, at its first half. The return of a loan that exists (its id within the column's 32
  bits, the clock a date the store reads) marks the loan returned with
  \<^verbatim>\<open>returnedAt = now\<close>; the statement that should then add 1 to the book's
  \<^verbatim>\<open>availableCopies\<close> is refused by the store, so no copy count moves, \<^verbatim>\<open>returnBook\<close>
  rejects and the route answers status 500 "Failed to return book". That holds for a
  loan in status borrowed, on its first return.
\<close>

theorem return_marks_without_increment:
  assumes "int4 i" and "timestamp_fits now"
    and loan: "find (\<lambda>l. borrow_id l = i) (borrowedBooks s) = Some l"
  shows "route_return i now s
       = (s\<lparr>borrowedBooks := map (mark_returned i now) (borrowedBooks s)\<rparr>,
          Status 500 ''Failed to return book'')
     \<and> find (\<lambda>l. borrow_id l = i) (borrowedBooks (fst (route_return i now s)))
       = Some (l\<lparr>status := ''returned'', returnedAt := Some now\<rparr>)
     \<and> books (fst (route_return i now s)) = books s"
proof -
  have run: "route_return i now s
       = (s\<lparr>borrowedBooks := map (mark_returned i now) (borrowedBooks s)\<rparr>,
          Status 500 ''Failed to return book'')"
    using assms by (simp add: route_return_def returnBook_def update_copies_def)
  have "borrow_id l = i"
    using loan by (rule find_Some_holds)
  moreover have "find (\<lambda>l. borrow_id l = i) (map (mark_returned i now) xs)
      = map_option (mark_returned i now) (find (\<lambda>l. borrow_id l = i) xs)" for xs
    by (induction xs) (simp_all add: mark_returned_def)
  ultimately have "find (\<lambda>l. borrow_id l = i) (map (mark_returned i now) (borrowedBooks s))
      = Some (l\<lparr>status := ''returned'', returnedAt := Some now\<rparr>)"
    using loan by (simp add: mark_returned_def)
  then show ?thesis
    by (simp add: run)
qed

theorem return_marks_without_increment_witness:
  "status loan1 = ''borrowed''
   \<and> route_return 1 1700000500000 db1
       = (db1\<lparr>borrowedBooks := [loan1\<lparr>status := ''returned'', returnedAt := Some 1700000500000\<rparr>]\<rparr>,
          Status 500 ''Failed to return book'')
   \<and> find (\<lambda>l. borrow_id l = 1) (borrowedBooks (fst (route_return 1 1700000500000 db1)))
       = Some (loan1\<lparr>status := ''returned'', returnedAt := Some 1700000500000\<rparr>)
   \<and> books (fst (route_return 1 1700000500000 db1)) = [dune\<lparr>availableCopies := 0\<rparr>, emma]"
proof -
  have range: "int4 1" "timestamp_fits 1700000500000"
    by (simp_all add: int4_def timestamp_fits_def)
  have loan: "find (\<lambda>l. borrow_id l = 1) (borrowedBooks db1) = Some loan1"
    by (simp add: example_defs)
  have marked: "map (mark_returned 1 1700000500000) (borrowedBooks db1)
      = [loan1\<lparr>status := ''returned'', returnedAt := Some 1700000500000\<rparr>]"
    by (simp add: mark_returned_def example_defs)
  have "status loan1 = ''borrowed''" and "borrow_id loan1 = 1"
    and "books db1 = [dune\<lparr>availableCopies := 0\<rparr>, emma]"
    by (simp_all add: example_defs)
  with return_marks_without_increment [OF range loan] marked show ?thesis
    by simp
qed

section \<open>Borrowing a book twice\<close>




section \<open>Renewing a loan\<close>

lemma find_set_dueDate:
  "find (\<lambda>l. borrow_id l = j) (map (set_dueDate i d) xs)
     = map_option (\<lambda>l. if j = i then l\<lparr>dueDate := d\<rparr> else l) (find (\<lambda>l. borrow_id l = j) xs)"
  by (induction xs) (auto simp: set_dueDate_def)

text \<open>
  C5, as the code has it. \<^verbatim>\<open>renewBook\<close> compares no dates and reads no row. For a loan id
  within the column's 32 bits and a new due date the store reads (years 1 to 9999), a
  renew request is always answered "Book renewed successfully": for a new due date that
  is earlier than, equal to or later than the current one, for a loan that was returned,
  and for an id that no loan carries. The loan with that id gets the new due date and
  keeps everything else, its status included; every other loan and every book stay as
  they were, and with no loan of that id the database does not change at all.
\<close>

theorem renew_never_rejects:
  assumes "int4 i" and "timestamp_fits d"
  shows "snd (route_renew i d s) = Json ''Book renewed successfully''
   \<and> books (fst (route_renew i d s)) = books s
   \<and> find (\<lambda>l. borrow_id l = j) (borrowedBooks (fst (route_renew i d s)))
       = map_option (\<lambda>l. if j = i then l\<lparr>dueDate := d\<rparr> else l)
           (find (\<lambda>l. borrow_id l = j) (borrowedBooks s))
   \<and> map status (borrowedBooks (fst (route_renew i d s))) = map status (borrowedBooks s)
   \<and> ((\<forall>l \<in> set (borrowedBooks s). borrow_id l \<noteq> i) \<longrightarrow> fst (route_renew i d s) = s)"
proof -
  have run: "route_renew i d s
      = (s\<lparr>borrowedBooks := map (set_dueDate i d) (borrowedBooks s)\<rparr>,
         Json ''Book renewed successfully'')"
    using assms by (simp add: route_renew_def renewBook_def)
  have statuses: "map status (map (set_dueDate i d) (borrowedBooks s)) = map status (borrowedBooks s)"
    by (simp add: set_dueDate_def comp_def)
  have unknown: "map (set_dueDate i d) (borrowedBooks s) = borrowedBooks s"
    if "\<forall>l \<in> set (borrowedBooks s). borrow_id l \<noteq> i"
    using that by (simp add: set_dueDate_def map_idI)
  show ?thesis
    using statuses unknown by (simp add: run find_set_dueDate)
qed

theorem renew_never_rejects_witness:
  "snd (route_renew 1 1702000000000 db1) = Json ''Book renewed successfully''
   \<and> books (fst (route_renew 1 1702000000000 db1)) = books db1
   \<and> find (\<lambda>l. borrow_id l = 1) (borrowedBooks (fst (route_renew 1 1702000000000 db1)))
       = Some (loan1\<lparr>dueDate := 1702000000000\<rparr>)
   \<and> map status (borrowedBooks (fst (route_renew 1 1702000000000 db1))) = [''borrowed'']
   \<and> fst (route_renew 5 1702000000000 db1) = db1"
proof -
  have range: "int4 1" "int4 5" "timestamp_fits 1702000000000"
    by (simp_all add: int4_def timestamp_fits_def)
  have found: "find (\<lambda>l. borrow_id l = 1) (borrowedBooks db1) = Some loan1"
    by (simp add: example_defs)
  have statuses: "map status (borrowedBooks db1) = [''borrowed'']"
    by (simp add: example_defs)
  have unknown: "\<forall>l \<in> set (borrowedBooks db1). borrow_id l \<noteq> 5"
    by (simp add: example_defs)
  show ?thesis
    using renew_never_rejects [OF range(1) range(3), of db1 1]
      renew_never_rejects [OF range(2) range(3), of db1 1]
      found statuses unknown
    by simp
qed

text \<open>
  Against C5 as stated: renewing alice's loan to a date three years before its due date
  succeeds and moves the due date back; renewing to the very same date succeeds;
  renewing the unknown loan 5 succeeds; renewing the loan when it is marked returned
  succeeds and changes its due date.
\<close>

theorem renew_counterexample:
  "dueDate loan1 = 1701209600000
   \<and> route_renew 1 1600000000000 db1
       = (db1\<lparr>borrowedBooks := [loan1\<lparr>dueDate := 1600000000000\<rparr>]\<rparr>,
          Json ''Book renewed successfully'')
   \<and> route_renew 1 1701209600000 db1 = (db1, Json ''Book renewed successfully'')
   \<and> route_renew 5 1702000000000 db1 = (db1, Json ''Book renewed successfully'')
   \<and> route_renew 1 1702000000000
        (db1\<lparr>borrowedBooks := [loan1\<lparr>status := ''returned'', returnedAt := Some 1700000500000\<rparr>]\<rparr>)
       = (db1\<lparr>borrowedBooks := [loan1\<lparr>status := ''returned'', returnedAt := Some 1700000500000,
                                       dueDate := 1702000000000\<rparr>]\<rparr>,
          Json ''Book renewed successfully'')"
  by (simp add: route_defs storage_defs example_defs)

section \<open>Purchases\<close>

text \<open>
  C7, as the code has it. The price of a purchase is the one the request carries
  (\<^verbatim>\<open>const { bookId, price } = req.body\<close>); the book's row is never read. A purchase
  request fails, with status 500 and no purchase written, when no book has the given id:
  for an id and a price that fit their columns it is the foreign key of
  \<^verbatim>\<open>purchases.book_id\<close> that rejects the row, and the key drawn for it is spent. When the
  book and the user exist and the id and the price fit their columns, the request
  succeeds and records exactly the price it was given; a purchase that succeeds always
  carries the price of the request. No purchase request changes the books table, so no
  copy count moves.
\<close>

theorem purchase_records_given_price:
  "(bid \<notin> set (map book_id (books s))
      \<longrightarrow> route_purchase uid bid pr now s
            = (if int4 bid \<and> decimal_fits 10 pr then s\<lparr>purchases_seq := purchases_seq s + 1\<rparr> else s,
               Status 500 ''Failed to purchase book'')
          \<and> purchases (fst (route_purchase uid bid pr now s)) = purchases s)
   \<and> (bid \<in> set (map book_id (books s)) \<and> uid \<in> set (map user_id (users s))
        \<and> int4 bid \<and> decimal_fits 10 pr
      \<longrightarrow> snd (route_purchase uid bid pr now s)
            = Json \<lparr>purchase_id = purchases_seq s, p_userId = uid, p_bookId = bid, p_price = pr,
                    purchasedAt = Some now\<rparr>
          \<and> purchases (fst (route_purchase uid bid pr now s))
            = purchases s @ [\<lparr>purchase_id = purchases_seq s, p_userId = uid, p_bookId = bid,
                              p_price = pr, purchasedAt = Some now\<rparr>])
   \<and> (\<forall>p. snd (route_purchase uid bid pr now s) = Json p \<longrightarrow> p_price p = pr)
   \<and> books (fst (route_purchase uid bid pr now s)) = books s"
  by (auto simp: route_purchase_def purchaseBook_def Let_def)

theorem purchase_records_given_price_witness:
  "route_purchase ''alice'' 7 999 1700000500000 db0
     = (db0\<lparr>purchases_seq := 2\<rparr>, Status 500 ''Failed to purchase book'')
   \<and> purchases (fst (route_purchase ''alice'' 7 999 1700000500000 db0)) = []
   \<and> snd (route_purchase ''alice'' 2 999 1700000500000 db0)
       = Json \<lparr>purchase_id = 1, p_userId = ''alice'', p_bookId = 2, p_price = 999,
               purchasedAt = Some 1700000500000\<rparr>
   \<and> purchases (fst (route_purchase ''alice'' 2 999 1700000500000 db0))
       = [\<lparr>purchase_id = 1, p_userId = ''alice'', p_bookId = 2, p_price = 999,
            purchasedAt = Some 1700000500000\<rparr>]
   \<and> books (fst (route_purchase ''alice'' 2 999 1700000500000 db0)) = [dune, emma]"
proof -
  have missing: "7 \<notin> set (map book_id (books db0))"
    by (simp add: example_defs)
  have present: "2 \<in> set (map book_id (books db0))" "''alice'' \<in> set (map user_id (users db0))"
    "int4 2" "int4 7" "decimal_fits 10 999"
    by (simp_all add: example_defs int4_def decimal_fits_def)
  have "purchases db0 = []" and "purchases_seq db0 = 1" and "books db0 = [dune, emma]"
    by (simp_all add: db0_def)
  with purchase_records_given_price [of 7 db0 "''alice''" 999 1700000500000]
    purchase_records_given_price [of 2 db0 "''alice''" 999 1700000500000] missing present
  show ?thesis
    by simp
qed

text \<open>
  Against C7 as stated: the first book costs 10.00, and a purchase request for it that
  names the price 0.01 is recorded at 0.01.
\<close>

theorem purchase_price_counterexample:
  "getBookById 1 db0 = Inr (Some dune) \<and> price dune = 1000
   \<and> snd (route_purchase ''alice'' 1 1 1700000500000 db0)
       = Json \<lparr>purchase_id = 1, p_userId = ''alice'', p_bookId = 1, p_price = 1,
               purchasedAt = Some 1700000500000\<rparr>"
  by (simp add: route_defs storage_defs example_defs)

section \<open>The admin statistics\<close>

text \<open>
  C8, at the example of the specification: two books, one loan made today, one overdue
  loan from last month, one purchase made today at 9.99. The aggregates as the
  specification words them are 1 loan today, 1 overdue loan and a revenue of 9.99. The
  route answers an admin with status 500 "Failed to fetch admin stats", because the
  counting methods reject with \<^verbatim>\<open>TypeError\<close> (every one of them: the number of books is not
  returned either); the revenue the storage layer would report is the constant 1847.
\<close>

theorem admin_stats_example:
  "route_admin_stats ''root'' 0 1700000500000 db_stats = Status 500 ''Failed to fetch admin stats''
   \<and> getTotalBooks db_stats = Inl TypeError
   \<and> getTotalBorrowedToday 0 1700000500000 db_stats = Inl TypeError
   \<and> getTotalOverdue 1700000500000 db_stats = Inl TypeError
   \<and> getTotalRevenueToday 0 1700000500000 db_stats = Inr 1847
   \<and> length (books db_stats) = 2
   \<and> startOfDay 0 1700000500000 = 1699920000000
   \<and> spec_borrowedToday 0 1700000500000 db_stats = 1
   \<and> spec_overdue 1700000500000 db_stats = 1
   \<and> spec_revenueToday 0 1700000500000 db_stats = 9.99"
  by (simp add: route_admin_stats_def all_stats_def getUser_def getTotalBooks_def
      getTotalUsers_def getTotalBorrowedToday_def getTotalOverdue_def getTotalRevenueToday_def
      first_of_count_def spec_borrowedToday_def spec_overdue_def spec_revenueToday_def
      within_today_def startOfDay_def example_defs)

section \<open>Adding a book\<close>

text \<open>
  C9, as the code has it. The schema declares \<^verbatim>\<open>available_copies\<close> with
  \<^verbatim>\<open>default(1)\<close>, and neither the insert schema nor the store bounds \<^verbatim>\<open>totalCopies\<close> from
  below or the price by zero. For every book whose values fit their columns, added by an
  admin: when its ISBN is given and another book carries it, \<^verbatim>\<open>createBook\<close> fails with the
  store's unique-constraint error, the route answers status 500 and no book is written
  (the key drawn for the row is spent); otherwise the book is created, with
  \<^verbatim>\<open>availableCopies\<close> equal to the given value or to 1 when none is given, \<^verbatim>\<open>totalCopies\<close>
  equal to the given value or to 1 when none is given, and the price as given, whatever
  their signs.
\<close>

theorem createBook_defaults:
  assumes fits: "book_fits (new_book ib now (books_seq s))"
    and admin: "getUser uid s = Some u" "user_role u = ''admin''"
  shows "((ib_isbn ib \<noteq> None \<and> ib_isbn ib \<in> set (map isbn (books s)))
           \<longrightarrow> createBook ib now s = (s\<lparr>books_seq := books_seq s + 1\<rparr>, Inl UniqueViolation)
             \<and> route_createBook uid ib now s
                 = (s\<lparr>books_seq := books_seq s + 1\<rparr>, Status 500 ''Failed to create book'')
             \<and> books (fst (route_createBook uid ib now s)) = books s)
     \<and> (\<not> (ib_isbn ib \<noteq> None \<and> ib_isbn ib \<in> set (map isbn (books s)))
           \<longrightarrow> (\<exists>b. createBook ib now s
                     = (s\<lparr>books := books s @ [b], books_seq := books_seq s + 1\<rparr>, Inr b)
                 \<and> snd (route_createBook uid ib now s) = Json b
                 \<and> availableCopies b = (case ib_availableCopies ib of None \<Rightarrow> 1 | Some a \<Rightarrow> a)
                 \<and> totalCopies b = (case ib_totalCopies ib of None \<Rightarrow> 1 | Some t \<Rightarrow> t)
                 \<and> price b = ib_price ib \<and> isbn b = ib_isbn ib))"
proof -
  have taken: "isbn_taken (isbn (new_book ib now (books_seq s))) s
      \<longleftrightarrow> (ib_isbn ib \<noteq> None \<and> ib_isbn ib \<in> set (map isbn (books s)))"
    by (auto simp: isbn_taken_def new_book_def split: option.splits)
  show ?thesis
  proof (cases "isbn_taken (isbn (new_book ib now (books_seq s))) s")
    case True
    with fits admin taken show ?thesis
      by (simp add: createBook_def route_createBook_def Let_def)
  next
    case False
    with fits have "createBook ib now s
        = (s\<lparr>books := books s @ [new_book ib now (books_seq s)], books_seq := books_seq s + 1\<rparr>,
           Inr (new_book ib now (books_seq s)))"
      by (simp add: createBook_def Let_def)
    moreover from this admin have "snd (route_createBook uid ib now s) = Json (new_book ib now (books_seq s))"
      by (simp add: route_createBook_def)
    moreover have "availableCopies (new_book ib now (books_seq s))
        = (case ib_availableCopies ib of None \<Rightarrow> 1 | Some a \<Rightarrow> a)"
      "totalCopies (new_book ib now (books_seq s))
        = (case ib_totalCopies ib of None \<Rightarrow> 1 | Some t \<Rightarrow> t)"
      "price (new_book ib now (books_seq s)) = ib_price ib"
      "isbn (new_book ib now (books_seq s)) = ib_isbn ib"
      by (simp_all add: new_book_def)
    ultimately show ?thesis
      using False taken by blast
  qed
qed

theorem createBook_defaults_witness:
  "createBook (ulysses\<lparr>ib_isbn := Some ''9780441013593''\<rparr>) 1700000500000 db0
     = (db0\<lparr>books_seq := 4\<rparr>, Inl UniqueViolation)
   \<and> route_createBook ''root'' (ulysses\<lparr>ib_isbn := Some ''9780441013593''\<rparr>) 1700000500000 db0
     = (db0\<lparr>books_seq := 4\<rparr>, Status 500 ''Failed to create book'')
   \<and> books (fst (route_createBook ''root'' (ulysses\<lparr>ib_isbn := Some ''9780441013593''\<rparr>)
              1700000500000 db0)) = [dune, emma]
   \<and> (\<exists>b. createBook (ulysses\<lparr>ib_totalCopies := None\<rparr>) 1700000500000 db0
            = (db0\<lparr>books := books db0 @ [b], books_seq := books_seq db0 + 1\<rparr>, Inr b)
          \<and> snd (route_createBook ''root'' (ulysses\<lparr>ib_totalCopies := None\<rparr>) 1700000500000 db0)
            = Json b
          \<and> availableCopies b = 1 \<and> totalCopies b = 1 \<and> price b = 1250 \<and> isbn b = None)"
proof -
  have admin: "getUser ''root'' db0 = Some root" "user_role root = ''admin''"
    by (simp_all add: getUser_def example_defs)
  have fits1: "book_fits (new_book (ulysses\<lparr>ib_isbn := Some ''9780441013593''\<rparr>) 1700000500000
                  (books_seq db0))"
    by (simp add: book_fits_def new_book_def ulysses_def int4_def decimal_fits_def)
  have fits2: "book_fits (new_book (ulysses\<lparr>ib_totalCopies := None\<rparr>) 1700000500000 (books_seq db0))"
    by (simp add: book_fits_def new_book_def ulysses_def int4_def decimal_fits_def)
  have taken: "ib_isbn (ulysses\<lparr>ib_isbn := Some ''9780441013593''\<rparr>) \<noteq> None
      \<and> ib_isbn (ulysses\<lparr>ib_isbn := Some ''9780441013593''\<rparr>) \<in> set (map isbn (books db0))"
    by (simp add: example_defs)
  have free: "\<not> (ib_isbn (ulysses\<lparr>ib_totalCopies := None\<rparr>) \<noteq> None
      \<and> ib_isbn (ulysses\<lparr>ib_totalCopies := None\<rparr>) \<in> set (map isbn (books db0)))"
    by (simp add: ulysses_def)
  have fields: "ib_availableCopies (ulysses\<lparr>ib_totalCopies := None\<rparr>) = None"
    "ib_totalCopies (ulysses\<lparr>ib_totalCopies := None\<rparr>) = None"
    "ib_price (ulysses\<lparr>ib_totalCopies := None\<rparr>) = 1250"
    "ib_isbn (ulysses\<lparr>ib_totalCopies := None\<rparr>) = None"
    by (simp_all add: ulysses_def)
  have seq: "books_seq db0 = 3" and bs: "books db0 = [dune, emma]"
    by (simp_all add: db0_def)
  from createBook_defaults [OF fits1 admin] taken
  have collision:
    "createBook (ulysses\<lparr>ib_isbn := Some ''9780441013593''\<rparr>) 1700000500000 db0
       = (db0\<lparr>books_seq := books_seq db0 + 1\<rparr>, Inl UniqueViolation)
     \<and> route_createBook ''root'' (ulysses\<lparr>ib_isbn := Some ''9780441013593''\<rparr>) 1700000500000 db0
       = (db0\<lparr>books_seq := books_seq db0 + 1\<rparr>, Status 500 ''Failed to create book'')
     \<and> books (fst (route_createBook ''root'' (ulysses\<lparr>ib_isbn := Some ''9780441013593''\<rparr>)
                1700000500000 db0)) = books db0"
    by blast
  from createBook_defaults [OF fits2 admin] free
  have created:
    "\<exists>b. createBook (ulysses\<lparr>ib_totalCopies := None\<rparr>) 1700000500000 db0
            = (db0\<lparr>books := books db0 @ [b], books_seq := books_seq db0 + 1\<rparr>, Inr b)
          \<and> snd (route_createBook ''root'' (ulysses\<lparr>ib_totalCopies := None\<rparr>) 1700000500000 db0)
            = Json b
          \<and> availableCopies b = (case ib_availableCopies (ulysses\<lparr>ib_totalCopies := None\<rparr>) of
                                   None \<Rightarrow> 1 | Some a \<Rightarrow> a)
          \<and> totalCopies b = (case ib_totalCopies (ulysses\<lparr>ib_totalCopies := None\<rparr>) of
                               None \<Rightarrow> 1 | Some t \<Rightarrow> t)
          \<and> price b = ib_price (ulysses\<lparr>ib_totalCopies := None\<rparr>)
          \<and> isbn b = ib_isbn (ulysses\<lparr>ib_totalCopies := None\<rparr>)"
    by blast
  from collision created show ?thesis
    by (simp add: fields seq bs)
qed

text \<open>
  Against C9 as stated: a book added with five copies and no \<^verbatim>\<open>availableCopies\<close> gets 1
  available copy, not 5; a book added with \<^verbatim>\<open>totalCopies = 0\<close> and the price -1.00 is
  accepted.
\<close>

theorem createBook_counterexample:
  "createBook ulysses 1700000500000 db0
     = (db0\<lparr>books := [dune, emma, new_book ulysses 1700000500000 3], books_seq := 4\<rparr>,
        Inr (new_book ulysses 1700000500000 3))
   \<and> ib_totalCopies ulysses = Some 5 \<and> ib_availableCopies ulysses = None
   \<and> totalCopies (new_book ulysses 1700000500000 3) = 5
   \<and> availableCopies (new_book ulysses 1700000500000 3) = 1
   \<and> snd (route_createBook ''root'' (ulysses\<lparr>ib_totalCopies := Some 0, ib_price := - 100\<rparr>)
            1700000500000 db0)
     = Json (new_book (ulysses\<lparr>ib_totalCopies := Some 0, ib_price := - 100\<rparr>) 1700000500000 3)
   \<and> totalCopies (new_book (ulysses\<lparr>ib_totalCopies := Some 0, ib_price := - 100\<rparr>) 1700000500000 3) = 0
   \<and> price (new_book (ulysses\<lparr>ib_totalCopies := Some 0, ib_price := - 100\<rparr>) 1700000500000 3) = - 100"
  by (simp add: route_createBook_def createBook_def book_fits_def isbn_taken_def new_book_def
      getUser_def int4_def decimal_fits_def Let_def ulysses_def example_defs)

section \<open>Copy counts along a sequence of requests\<close>

lemma returnBook_books: "books (fst (returnBook i now s)) = books s"
  by (simp add: returnBook_def update_copies_def split: option.splits)

lemma route_return_books: "books (fst (route_return i now s)) = books s"
proof -
  have "fst (route_return i now s) = fst (returnBook i now s)"
    by (simp add: route_return_def split: prod.splits sum.splits)
  then show ?thesis
    by (simp add: returnBook_books)
qed

lemma step_books: "books (step s r) = books s"
  by (cases r) (simp_all add: route_borrow_state route_return_books)

lemma run_books: "books (run s rs) = books s"
  by (induction rs arbitrary: s) (simp_all add: step_books)

text \<open>
  C1. Take any library in which \<open>0 \<le> availableCopies \<le> totalCopies\<close> holds for every
  book. It holds again after any list of borrow requests and return requests, and after
  a call of \<^verbatim>\<open>borrowBook\<close> or of \<^verbatim>\<open>returnBook\<close> itself: \<^verbatim>\<open>borrowBook\<close> never takes
  \<^verbatim>\<open>availableCopies\<close> below 0 and \<^verbatim>\<open>returnBook\<close> never takes it above \<^verbatim>\<open>totalCopies\<close>, since
  the one statement with which either would move a count is refused by the store, and
  the books are the same rows before and after.
\<close>

theorem copies_invariant_run:
  assumes "\<forall>b \<in> set (books s). 0 \<le> availableCopies b \<and> availableCopies b \<le> totalCopies b"
  shows "(\<forall>b \<in> set (books (run s rs)). 0 \<le> availableCopies b \<and> availableCopies b \<le> totalCopies b)
     \<and> (\<forall>b \<in> set (books (fst (borrowBook uid bid due now s))).
           0 \<le> availableCopies b \<and> availableCopies b \<le> totalCopies b)
     \<and> (\<forall>b \<in> set (books (fst (returnBook i now' s))).
           0 \<le> availableCopies b \<and> availableCopies b \<le> totalCopies b)
     \<and> books (run s rs) = books s"
proof -
  have "books (fst (borrowBook uid bid due now s)) = books s"
    by (simp add: borrowBook_def update_copies_def)
  with assms show ?thesis
    by (simp add: run_books returnBook_books)
qed

theorem copies_invariant_run_witness:
  "list_all (\<lambda>b. 0 \<le> availableCopies b \<and> availableCopies b \<le> totalCopies b)
     (books (run db1 [Return 1 1700000500000, Return 1 1700000600000,
                      Borrow ''root'' 2 1701300000000 1700000700000]))
   \<and> list_all (\<lambda>b. 0 \<le> availableCopies b \<and> availableCopies b \<le> totalCopies b)
       (books (fst (borrowBook ''root'' 1 1701300000000 1700000700000 db1)))
   \<and> list_all (\<lambda>b. 0 \<le> availableCopies b \<and> availableCopies b \<le> totalCopies b)
       (books (fst (returnBook 1 1700000500000 db1)))
   \<and> books (run db1 [Return 1 1700000500000, Return 1 1700000600000,
                      Borrow ''root'' 2 1701300000000 1700000700000])
       = [dune\<lparr>availableCopies := 0\<rparr>, emma]"
proof -
  have inv: "\<forall>b \<in> set (books db1). 0 \<le> availableCopies b \<and> availableCopies b \<le> totalCopies b"
    by (simp add: example_defs)
  have bs: "books db1 = [dune\<lparr>availableCopies := 0\<rparr>, emma]"
    by (simp add: example_defs)
  from copies_invariant_run [OF inv,
      of "[Return 1 1700000500000, Return 1 1700000600000,
           Borrow ''root'' 2 1701300000000 1700000700000]"
         "''root''" 1 1701300000000 1700000700000 1 1700000500000]
  show ?thesis
    by (simp only: list_all_iff bs) simp
qed

end
